theory Spec2Isabelle
  imports Main "HOL-Library.Sublist"
begin

unbundle bit_operations_syntax

section \<open>The runtime launcher of weichspielapparat (src/server/runtime.js)\<close>

text \<open>
  The module finds, installs and launches the fernspielapparat runtime. Its functions
  are asynchronous: they return promises and react to events of child processes. The
  embedding keeps the functions and their names and makes the effects explicit:
  \<^item> a JavaScript string is a \<open>string\<close>; a value that may be \<open>undefined\<close> is an
    \<open>option\<close>;
  \<^item> a promise is a value of the type \<open>promise\<close>; a settled promise ignores every
    later call of its \<open>resolve\<close> and \<open>reject\<close>;
  \<^item> the events a child process emits are a list, handled one after the other, as the
    event loop of Node does;
  \<^item> objects that are shared by reference (\<open>process.env\<close>) live in an explicit heap;
  \<^item> what the program asks of the outside (the file system, the download, the child
    processes) is a field of the record \<open>world\<close>, and what it does to the outside is
    recorded in the record \<open>effects\<close>.
\<close>

subsection \<open>JavaScript values\<close>

text \<open>A character of the model is one byte: strings of code units below 256.\<close>

definition LF :: char where "LF = CHR 0x0A"
definition CR :: char where "CR = CHR 0x0D"
definition backslash :: char where "backslash = CHR 0x5C"
definition dquote :: char where "dquote = CHR 0x22"

text \<open>\<open>if (x)\<close> on a string that may be undefined: the empty string and undefined are falsy.\<close>

fun truthy :: "string option \<Rightarrow> bool" where
  "truthy None = False"
| "truthy (Some s) = (s \<noteq> [])"

text \<open>A value inside a template literal, or converted by \<open>RegExp.prototype.exec\<close>.\<close>

fun to_str :: "string option \<Rightarrow> string" where
  "to_str None = ''undefined''"
| "to_str (Some s) = s"

text \<open>An integral number inside a template literal; \<open>null\<close> prints as \<open>null\<close>.\<close>

fun digits10 :: "nat \<Rightarrow> string" where
  "digits10 n = (if n < 10 then [''0123456789'' ! n]
                 else digits10 (n div 10) @ [''0123456789'' ! (n mod 10)])"

declare digits10.simps [simp del]

definition num_str :: "int \<Rightarrow> string" where
  "num_str i = (if i < 0 then CHR ''-'' # digits10 (nat (- i)) else digits10 (nat i))"

fun code_str :: "int option \<Rightarrow> string" where
  "code_str None = ''null''"
| "code_str (Some i) = num_str i"

text \<open>\<open>if (code)\<close> on an exit code: \<open>null\<close> and \<open>0\<close> are falsy.\<close>

fun truthy_code :: "int option \<Rightarrow> bool" where
  "truthy_code None = False"
| "truthy_code (Some i) = (i \<noteq> 0)"

text \<open>\<open>s.split(c)\<close> for a separator of one character: never empty, \<open>''''.split(c)\<close> is \<open>['''']\<close>.\<close>

fun split :: "char \<Rightarrow> string \<Rightarrow> string list" where
  "split c [] = [[]]"
| "split c (x # xs) =
     (if x = c then [] # split c xs
      else (case split c xs of [] \<Rightarrow> [[x]] | w # ws \<Rightarrow> (x # w) # ws))"

text \<open>\<open>String.prototype.trim\<close>: the white space and line terminators below 256.\<close>

definition js_space :: "char \<Rightarrow> bool" where
  "js_space c = (c \<in> {CHR 0x09, CHR 0x0A, CHR 0x0B, CHR 0x0C, CHR 0x0D, CHR 0x20, CHR 0xA0})"

definition trim :: "string \<Rightarrow> string" where
  "trim s = rev (dropWhile js_space (rev (dropWhile js_space s)))"

text \<open>The regular expression \<open>/vlc/i\<close>, run by \<open>exec\<close> on its argument converted to a string.\<close>

fun vlc_here :: "string \<Rightarrow> bool" where
  "vlc_here (a # b # c # _) =
     ((a = CHR ''v'' \<or> a = CHR ''V'') \<and> (b = CHR ''l'' \<or> b = CHR ''L'') \<and> (c = CHR ''c'' \<or> c = CHR ''C''))"
| "vlc_here _ = False"

fun vlc_search :: "string \<Rightarrow> bool" where
  "vlc_search [] = False"
| "vlc_search (x # xs) = (vlc_here (x # xs) \<or> vlc_search xs)"

definition vlcRegex_exec :: "string option \<Rightarrow> bool" where
  "vlcRegex_exec v = vlc_search (to_str v)"

text \<open>
  The regular expressions of the extraction. \<open>/fernspielapparat$/\<close> holds of the strings
  that end in that word. In \<open>/fernspielapparat.exe$/\<close> the dot is not escaped: it stands
  for any one character that is not a line terminator.
\<close>

definition test_plain :: "string \<Rightarrow> bool" where
  "test_plain s = suffix ''fernspielapparat'' s"

definition test_exe :: "string \<Rightarrow> bool" where
  "test_exe s =
     (20 \<le> length s \<and>
      (let t = drop (length s - 20) s
       in take 16 t = ''fernspielapparat'' \<and> t ! 16 \<noteq> LF \<and> t ! 16 \<noteq> CR \<and> drop 17 t = ''exe''))"

subsection \<open>Promises\<close>

datatype 'a promise = Pending | Fulfilled 'a | Rejected string

text \<open>\<open>resolve\<close> and \<open>reject\<close> of the executor: only the first call settles the promise.\<close>

fun resolve :: "'a \<Rightarrow> 'a promise \<Rightarrow> 'a promise" where
  "resolve v Pending = Fulfilled v"
| "resolve v p = p"

fun reject :: "string \<Rightarrow> 'a promise \<Rightarrow> 'a promise" where
  "reject e Pending = Rejected e"
| "reject e p = p"

subsection \<open>Objects shared by reference\<close>

text \<open>
  An environment is an object with string properties. Objects live in a heap, so that
  \<open>process.env\<close> and a copy of it are told apart: an address names an object, and
  \<open>next_addr\<close> is the first address that no object has yet.
\<close>

type_synonym obj = "string \<rightharpoonup> string"

record heap =
  objs :: "nat \<rightharpoonup> obj"
  next_addr :: nat

definition props :: "heap \<Rightarrow> nat \<Rightarrow> obj" where
  "props h a = (case objs h a of None \<Rightarrow> Map.empty | Some e \<Rightarrow> e)"

definition get_prop :: "heap \<Rightarrow> nat \<Rightarrow> string \<Rightarrow> string option" where
  "get_prop h a k = props h a k"

definition set_prop :: "nat \<Rightarrow> string \<Rightarrow> string \<Rightarrow> heap \<Rightarrow> heap" where
  "set_prop a k v h = h\<lparr>objs := (objs h)(a \<mapsto> (props h a)(k \<mapsto> v))\<rparr>"

text \<open>The object literal \<open>{ ...o }\<close>: a new object with the properties of \<open>o\<close>.\<close>

definition spread :: "nat \<Rightarrow> heap \<Rightarrow> nat \<times> heap" where
  "spread a h =
     (next_addr h, h\<lparr>objs := (objs h)(next_addr h \<mapsto> props h a), next_addr := Suc (next_addr h)\<rparr>)"

subsection \<open>The environment of the child processes\<close>

text \<open>\<open>path.delimiter\<close> of Node: a semicolon on Windows, a colon elsewhere.\<close>

definition delimiter :: "string \<Rightarrow> string" where
  "delimiter platform = (if platform = ''win32'' then '';'' else '':'')"

definition executableName :: "string \<Rightarrow> string" where
  "executableName platform =
     (if platform = ''win32'' then ''fernspielapparat.exe'' else ''fernspielapparat'')"

text \<open>
  \<open>vlcPluginDir\<close> and \<open>vlcLibDir\<close> read \<open>process.env.ProgramFiles\<close> on Windows; \<open>penv\<close> is
  the address of \<open>process.env\<close>.
\<close>

definition vlcPluginDir :: "string \<Rightarrow> nat \<Rightarrow> heap \<Rightarrow> string" where
  "vlcPluginDir platform penv h =
     (if platform = ''darwin'' then ''/Applications/VLC.app/Contents/MacOS/plugins''
      else if platform = ''win32'' then
        to_str (get_prop h penv ''ProgramFiles'') @ [backslash] @ ''VideoLAN'' @ [backslash] @ ''VLC''
          @ [backslash] @ ''plugins''
      else [])"

definition vlcLibDir :: "string \<Rightarrow> nat \<Rightarrow> heap \<Rightarrow> string" where
  "vlcLibDir platform penv h =
     (if platform = ''darwin'' then
        ''/Applications/VLC.app/Contents/MacOS:/Applications/VLC.app/Contents/MacOS/lib''
      else if platform = ''win32'' then
        to_str (get_prop h penv ''ProgramFiles'') @ [backslash] @ ''VideoLAN'' @ [backslash] @ ''VLC''
      else [])"

text \<open>
  \<open>envForPlatform\<close> copies \<open>process.env\<close> into a new object \<open>env\<close>, assigns to properties
  of \<open>env\<close> and returns it: the address of the result and the heap after the call.
\<close>

definition set_plugin_path :: "string \<Rightarrow> nat \<Rightarrow> nat \<Rightarrow> heap \<Rightarrow> heap" where
  "set_plugin_path platform penv env h =
     (if \<not> truthy (get_prop h env ''VLC_PLUGIN_PATH'')
      then set_prop env ''VLC_PLUGIN_PATH'' (vlcPluginDir platform penv h) h
      else h)"

definition envForPlatform :: "string \<Rightarrow> nat \<Rightarrow> heap \<Rightarrow> nat \<times> heap" where
  "envForPlatform platform penv h0 =
     (let (env, h1) = spread penv h0 in
      if platform = ''darwin'' then
        let h2 =
          (if \<not> vlcRegex_exec (get_prop h1 env ''DYLD_LIBRARY_PATH'') then
             let pre = (if truthy (get_prop h1 env ''DYLD_LIBRARY_PATH'')
                        then to_str (get_prop h1 env ''DYLD_LIBRARY_PATH'') @ delimiter platform
                        else [])
             in set_prop env ''DYLD_LIBRARY_PATH'' (pre @ vlcLibDir platform penv h1) h1
           else h1)
        in (env, set_plugin_path platform penv env h2)
      else if platform = ''win32'' then
        let h2 =
          (if \<not> vlcRegex_exec (get_prop h1 env ''Path'') then
             set_prop env ''Path''
               (to_str (get_prop h1 env ''Path'') @ delimiter platform @ vlcLibDir platform penv h1) h1
           else h1)
        in (env, set_plugin_path platform penv env h2)
      else (env, h1))"

subsection \<open>The outside world and the effects on it\<close>

text \<open>
  \<open>spawn (command, args, opts)\<close> of \<open>child_process\<close>: \<open>cwd\<close> is \<open>None\<close> when \<open>opts\<close> has no
  such property. A child is known by the call that made it.
\<close>

record spawn_call =
  command :: string
  args :: "string list"
  env :: obj
  cwd :: "string option"

text \<open>The calls the module makes to other modules, in the order it makes them.\<close>

datatype call =
    Spawn spawn_call
  | FsAccess string nat
  | ReleaseTarballUrl
  | DownloadTarball string string
  | Decompress string string
  | WaitPort string nat nat nat

datatype line = Log string | Err string

record effects =
  calls :: "call list"
  console :: "line list"
  disk :: "string \<rightharpoonup> string"
  mem :: heap

text \<open>What a child process emits, and how the promise of \<open>waitPort\<close> settles.\<close>

datatype child_event =
    Stdout string
  | Stderr string
  | SpawnError string
  | Exit "int option"
  | PortFulfilled
  | PortRejected

text \<open>
  A downloaded archive: its file entries (name and content) in the order of the
  archive, and the error that the decompression reports at its end, if any.
\<close>

record archive =
  entries :: "(string \<times> string) list"
  failure :: "string option"

text \<open>
  What the module reads from outside: the platform (\<open>os.platform()\<close>), the directory
  \<open>app.getPath('userData')\<close>, the address of \<open>process.env\<close>, \<open>dirname\<close> of \<open>path\<close>,
  \<open>fs.access\<close> (the message of its error, if any), the modules \<open>releases.js\<close> and
  \<open>github.js\<close> (their sources are not part of the development: their results are taken
  as given), the archive behind a file name and the events of the two child processes.
\<close>

record world =
  os_platform :: string
  userDir :: string
  process_env :: nat
  path_dirname :: "string \<Rightarrow> string"
  fs_access :: "string \<Rightarrow> nat \<Rightarrow> string option"
  releaseTarballUrl :: "string promise"
  downloadTarball :: "string \<Rightarrow> string \<Rightarrow> string promise"
  tarball :: "string \<Rightarrow> archive"
  probe_child :: "child_event list"
  server_child :: "child_event list"

text \<open>\<open>getUserDir\<close> throws when electron gives no directory; the module then does not load.\<close>

definition getUserDir :: "string option \<Rightarrow> string + string" where
  "getUserDir d = (if \<not> truthy d then Inl ''Could not find userData directory'' else Inr (to_str d))"

text \<open>A computation that returns a promise, and \<open>p.then (f, g)\<close>, \<open>p.then (f)\<close>, \<open>p.catch (g)\<close>.\<close>

type_synonym 'a async = "effects \<Rightarrow> effects \<times> 'a promise"

definition then2 :: "effects \<times> 'a promise \<Rightarrow> ('a \<Rightarrow> 'b async) \<Rightarrow> (string \<Rightarrow> 'b async) \<Rightarrow> effects \<times> 'b promise" where
  "then2 m f g =
     (case m of
        (fx, Pending) \<Rightarrow> (fx, Pending)
      | (fx, Fulfilled v) \<Rightarrow> f v fx
      | (fx, Rejected e) \<Rightarrow> g e fx)"

definition then1 :: "effects \<times> 'a promise \<Rightarrow> ('a \<Rightarrow> 'b async) \<Rightarrow> effects \<times> 'b promise" where
  "then1 m f = then2 m f (\<lambda>e fx. (fx, Rejected e))"

definition catch :: "effects \<times> 'a promise \<Rightarrow> (string \<Rightarrow> 'a async) \<Rightarrow> effects \<times> 'a promise" where
  "catch m g = then2 m (\<lambda>v fx. (fx, Fulfilled v)) g"

definition do_call :: "call \<Rightarrow> effects \<Rightarrow> effects" where
  "do_call c fx = fx\<lparr>calls := calls fx @ [c]\<rparr>"

definition console_log :: "string \<Rightarrow> effects \<Rightarrow> effects" where
  "console_log s fx = fx\<lparr>console := console fx @ [Log s]\<rparr>"

definition console_error :: "string \<Rightarrow> effects \<Rightarrow> effects" where
  "console_error s fx = fx\<lparr>console := console fx @ [Err s]\<rparr>"

subsection \<open>The version probe\<close>

text \<open>
  \<open>fernspielapparatVersionOnPath\<close> spawns the executable with \<open>--version\<close>, gathers what
  it prints and settles when the child exits or cannot be spawned. The state of the
  handlers is the variable \<open>output\<close>, the promise and the effects (and, for
  \<open>launchServer\<close> below, the variable \<open>starting\<close>). The probe does not call
  \<open>waitPort\<close>: the two events of that promise leave its state as it is.
\<close>

record 'a handlers =
  output_str :: string
  starting :: bool
  settled :: "'a promise"
  fx_of :: effects

definition new_handlers :: "effects \<Rightarrow> 'a handlers" where
  "new_handlers fx = \<lparr>output_str = [], starting = True, settled = Pending, fx_of = fx\<rparr>"

definition version_exit :: "int option \<Rightarrow> string handlers \<Rightarrow> string handlers" where
  "version_exit code s =
     (if truthy_code code then
        s\<lparr>settled := reject (''Unsuccessful exit status: '' @ code_str code @ '', Output: ''
                              @ [dquote] @ output_str s @ [dquote]) (settled s)\<rparr>
      else
        let outputWords = split CHR '' '' (output_str s) in
        if length outputWords = 2 then
          let version = trim (split CHR '' '' (output_str s) ! 1)
          in s\<lparr>settled := resolve version (settled s)\<rparr>
        else
          s\<lparr>fx_of := console_log (''Unexpected output from fernspielapparat runtime: '' @ output_str s) (fx_of s),
            settled := reject (''Unexpected output from fernspielapparat runtime: '' @ output_str s) (settled s)\<rparr>)"

fun version_event :: "string handlers \<Rightarrow> child_event \<Rightarrow> string handlers" where
  "version_event s (Stdout d) = s\<lparr>output_str := output_str s @ d\<rparr>"
| "version_event s (Stderr d) = s\<lparr>output_str := output_str s @ d\<rparr>"
| "version_event s (SpawnError m) =
     s\<lparr>settled := reject (''No fernspielapparat on path, error: '' @ m) (settled s)\<rparr>"
| "version_event s (Exit code) = version_exit code s"
| "version_event s PortFulfilled = s"
| "version_event s PortRejected = s"

definition fernspielapparatVersionOnPath :: "world \<Rightarrow> string async" where
  "fernspielapparatVersionOnPath w fx =
     (let (e, m) = envForPlatform (os_platform w) (process_env w) (mem fx);
          server = \<lparr>command = executableName (os_platform w), args = [''--version''],
                    env = props m e, cwd = None\<rparr>;
          fx1 = do_call (Spawn server) (fx\<lparr>mem := m\<rparr>);
          s = foldl version_event (new_handlers fx1) (probe_child w)
      in (fx_of s, settled s))"

subsection \<open>The binary resolver\<close>

definition R_OK :: nat where "R_OK = 4"
definition X_OK :: nat where "X_OK = 1"

definition userBinaryPath :: "world \<Rightarrow> string" where
  "userBinaryPath w = userDir w @ ''/'' @ executableName (os_platform w)"

definition fernspielapparatPathInUserDir :: "world \<Rightarrow> string async" where
  "fernspielapparatPathInUserDir w fx =
     (let binaryPath = userBinaryPath w;
          perms = (if os_platform w = ''win32'' then R_OK else R_OK OR X_OK);
          fx1 = do_call (FsAccess binaryPath perms) fx
      in case fs_access w binaryPath perms of
           Some m \<Rightarrow>
             (fx1, Rejected (''Lacking execution permissions for runtime binary at: '' @ binaryPath
                             @ '', error: '' @ m))
         | None \<Rightarrow>
             (console_log (''using previously downloaded runtime '' @ binaryPath) fx1,
              Fulfilled binaryPath))"

definition fernspielapparatOnPath :: "world \<Rightarrow> string \<Rightarrow> string async" where
  "fernspielapparatOnPath w version fx =
     (console_log (''using system-provided fernspielapparat runtime, version '' @ version) fx,
      Fulfilled (executableName (os_platform w)))"

definition getBinary :: "world \<Rightarrow> string async" where
  "getBinary w fx =
     then2 (fernspielapparatVersionOnPath w fx)
       (fernspielapparatOnPath w)
       (\<lambda>e. fernspielapparatPathInUserDir w)"

subsection \<open>The installer\<close>

text \<open>
  The two functions that \<open>extractExecutableToUserDir\<close> hands to \<open>decompress\<close>.
  \<open>ignore_fn\<close> returns the new value of the variable \<open>binary\<close> and whether the file is
  left out. \<open>map_fn\<close> returns the new name of the header, or \<open>None\<close> where the source
  returns \<open>null\<close>.
\<close>

definition ignore_fn :: "string \<Rightarrow> string option \<Rightarrow> string option \<times> bool" where
  "ignore_fn file binary =
     (let isExecutable = (test_plain file \<or> test_exe file)
      in (if isExecutable then Some file else binary, \<not> isExecutable))"

definition map_fn :: "string \<Rightarrow> string option" where
  "map_fn name =
     (if test_plain name then Some ''fernspielapparat''
      else if test_exe name then Some ''fernspielapparat.exe''
      else None)"

text \<open>
  \<open>decompress\<close> of the package targz unpacks with the package tar-fs. For every entry,
  tar-fs calls \<open>map\<close> on the header and keeps the old header when the answer is
  \<open>null\<close>; it joins the destination directory and the name of the header (with the
  separator of the platform; names in an archive are relative and normalised); it
  calls \<open>ignore\<close> on the joined path; and it writes the entry to that path unless
  \<open>ignore\<close> said to leave it out.
\<close>

definition path_sep :: "string \<Rightarrow> char" where
  "path_sep platform = (if platform = ''win32'' then backslash else CHR ''/'')"

definition entry_path :: "string \<Rightarrow> string \<Rightarrow> string \<Rightarrow> string" where
  "entry_path platform dest name =
     dest @ [path_sep platform] @ (case map_fn name of None \<Rightarrow> name | Some n \<Rightarrow> n)"

definition extract_entry ::
  "string \<Rightarrow> string \<Rightarrow> string option \<times> (string \<rightharpoonup> string) \<Rightarrow> string \<times> string
     \<Rightarrow> string option \<times> (string \<rightharpoonup> string)" where
  "extract_entry platform dest st e =
     (let file = entry_path platform dest (fst e);
          (binary, left_out) = ignore_fn file (fst st)
      in (binary, if left_out then snd st else (snd st)(file \<mapsto> snd e)))"

definition extractExecutableToUserDir :: "world \<Rightarrow> string \<Rightarrow> string async" where
  "extractExecutableToUserDir w tarPath fx =
     (let fx1 = do_call (Decompress tarPath (userDir w)) fx;
          (binary, d) = foldl (extract_entry (os_platform w) (userDir w)) (None, disk fx1)
                          (entries (tarball w tarPath));
          fx2 = fx1\<lparr>disk := d\<rparr>
      in case failure (tarball w tarPath) of
           Some msg \<Rightarrow> (fx2, Rejected (''Failed to decompress release, error: '' @ msg @ ''.''))
         | None \<Rightarrow>
             if \<not> truthy binary then (fx2, Rejected ''Could not find executable in tarball'')
             else (console_log (''extracted binary: '' @ to_str binary) fx2, Fulfilled (to_str binary)))"

definition downloadBinary :: "world \<Rightarrow> string async" where
  "downloadBinary w fx =
     then1
       (then1 (do_call ReleaseTarballUrl fx, releaseTarballUrl w)
          (\<lambda>url fx'. (do_call (DownloadTarball url ''fernspielapparat.tar.gz'') fx',
                      downloadTarball w url ''fernspielapparat.tar.gz'')))
       (extractExecutableToUserDir w)"

subsection \<open>The process supervisor and the readiness probe\<close>

definition defaultBind_host :: string where "defaultBind_host = ''127.0.0.1''"
definition defaultBind_port :: nat where "defaultBind_port = 38397"

definition wsUrl :: string where
  "wsUrl = ''ws://'' @ defaultBind_host @ '':'' @ num_str (int defaultBind_port)"

record runtime =
  process :: spawn_call
  url :: string

text \<open>The options and the call of \<open>spawn\<close> in \<open>launchServer\<close>.\<close>

definition server_spawn :: "world \<Rightarrow> string \<Rightarrow> obj \<Rightarrow> spawn_call" where
  "server_spawn w pathToBinary e =
     \<lparr>command = executableName (os_platform w),
      args = [''-vvvv'', ''-s''],
      env = e,
      cwd = (if truthy (Some pathToBinary) \<and> pathToBinary \<noteq> ''fernspielapparat''
                \<and> pathToBinary \<noteq> ''fernspielapparat.exe''
             then Some (path_dirname w pathToBinary) else None)\<rparr>"

text \<open>
  The handlers of \<open>launchServer\<close>: the data of the child goes to the console, the exit
  and the error of the child and the promise of \<open>waitPort\<close> settle the launch.
\<close>

definition server_exit :: "int option \<Rightarrow> runtime handlers \<Rightarrow> runtime handlers" where
  "server_exit code s =
     (let s1 = s\<lparr>fx_of := (if truthy_code code
                            then console_log (''server exited with code '' @ code_str code) (fx_of s)
                            else console_log ''server exited'' (fx_of s))\<rparr>
      in if starting s1 then
           s1\<lparr>starting := False,
              settled := reject (''fernspielapparat unexpected exit at startup with code '' @ code_str code)
                           (settled s1)\<rparr>
         else s1)"

fun server_event :: "spawn_call \<Rightarrow> runtime handlers \<Rightarrow> child_event \<Rightarrow> runtime handlers" where
  "server_event server s (Stdout d) = s\<lparr>fx_of := console_log d (fx_of s)\<rparr>"
| "server_event server s (Stderr d) = s\<lparr>fx_of := console_error d (fx_of s)\<rparr>"
| "server_event server s (Exit code) = server_exit code s"
| "server_event server s (SpawnError m) =
     s\<lparr>settled := reject (''fernspielapparat could not be started, error: '' @ m) (settled s)\<rparr>"
| "server_event server s PortFulfilled =
     s\<lparr>settled := resolve \<lparr>process = server, url = wsUrl\<rparr> (settled s)\<rparr>"
| "server_event server s PortRejected =
     s\<lparr>settled := reject (''fernspielapparat server not available on port ''
                           @ num_str (int defaultBind_port) @ '' after 5 seconds, giving up.'')
                        (settled s)\<rparr>"

definition launchServer :: "world \<Rightarrow> string \<Rightarrow> runtime async" where
  "launchServer w pathToBinary fx =
     (let (e, m) = envForPlatform (os_platform w) (process_env w) (mem fx);
          server = server_spawn w pathToBinary (props m e);
          fx1 = do_call (Spawn server) (fx\<lparr>mem := m\<rparr>);
          fx2 = do_call (WaitPort defaultBind_host defaultBind_port 150 5000) fx1;
          s = foldl (server_event server) (new_handlers fx2) (server_child w)
      in (fx_of s, settled s))"

definition launchRuntime :: "world \<Rightarrow> runtime async" where
  "launchRuntime w fx =
     then1 (catch (getBinary w fx) (\<lambda>e. downloadBinary w)) (launchServer w)"

subsection \<open>Notions for the statements\<close>

text \<open>The data an event carries, and the events that only carry data.\<close>

fun chunk :: "child_event \<Rightarrow> string" where
  "chunk (Stdout d) = d"
| "chunk (Stderr d) = d"
| "chunk e = []"

fun is_data :: "child_event \<Rightarrow> bool" where
  "is_data (Stdout d) = True"
| "is_data (Stderr d) = True"
| "is_data e = False"

text \<open>
  The words of the specification, \<open>whitespace-separated tokens\<close>: the maximal runs of
  characters that are not white space. It is not what the program computes; the
  statements compare the two.
\<close>

fun tokens_from :: "string \<Rightarrow> string \<Rightarrow> string list" where
  "tokens_from acc [] = (if acc = [] then [] else [rev acc])"
| "tokens_from acc (x # xs) =
     (if js_space x then (if acc = [] then tokens_from [] xs else rev acc # tokens_from [] xs)
      else tokens_from (x # acc) xs)"

definition spec_tokens :: "string \<Rightarrow> string list" where
  "spec_tokens s = tokens_from [] s"

text \<open>\<open>path.dirname\<close> of Node on POSIX, an instance of the field \<open>path_dirname\<close>.\<close>

definition posix_dirname :: "string \<Rightarrow> string" where
  "posix_dirname path =
     (if path = [] then ''.''
      else
        let hasRoot = (hd path = CHR ''/'');
            r = dropWhile (\<lambda>c. c \<noteq> CHR ''/'') (dropWhile (\<lambda>c. c = CHR ''/'') (rev (tl path)))
        in if r = [] then (if hasRoot then ''/'' else ''.'')
           else if hasRoot \<and> length r = 1 then ''//''
           else take (length r) path)"

text \<open>
  The call of \<open>spawn\<close> that \<open>launchServer\<close> makes, and the line that the exit of
  the server leaves on the console.
\<close>

definition server_of :: "world \<Rightarrow> string \<Rightarrow> effects \<Rightarrow> spawn_call" where
  "server_of w pathToBinary fx =
     server_spawn w pathToBinary
       (props (snd (envForPlatform (os_platform w) (process_env w) (mem fx)))
              (fst (envForPlatform (os_platform w) (process_env w) (mem fx))))"

definition exit_line :: "int option \<Rightarrow> line" where
  "exit_line code =
     Log (if truthy_code code then ''server exited with code '' @ code_str code else ''server exited'')"

text \<open>The variable of the search path for libraries that \<open>envForPlatform\<close> assigns to.\<close>

definition libPathVar :: "string \<Rightarrow> string option" where
  "libPathVar platform =
     (if platform = ''darwin'' then Some ''DYLD_LIBRARY_PATH''
      else if platform = ''win32'' then Some ''Path'' else None)"

text \<open>Heaps with a \<open>process.env\<close> at address 0, for macOS and for Windows.\<close>

definition heap_mac :: heap where
  "heap_mac = \<lparr>objs = [0 \<mapsto> [''DYLD_LIBRARY_PATH'' \<mapsto> ''/opt/lib'', ''VLC_PLUGIN_PATH'' \<mapsto> []]],
               next_addr = 1\<rparr>"

definition heap_win :: heap where
  "heap_win = \<lparr>objs = [0 \<mapsto> [''ProgramFiles'' \<mapsto> ''C:/Programs'', ''Path'' \<mapsto> ''C:/Windows'']],
               next_addr = 1\<rparr>"

definition heap_win_PATH :: heap where
  "heap_win_PATH = \<lparr>objs = [0 \<mapsto> [''ProgramFiles'' \<mapsto> ''C:/Programs'', ''PATH'' \<mapsto> ''C:/Windows'']],
               next_addr = 1\<rparr>"

text \<open>
  Where tar-fs writes an entry of a given name, if it writes it: the path that \<open>map\<close>
  and the join give, when \<open>ignore\<close> lets it pass. And the files that an archive leaves
  on the disk, in the order of its entries.
\<close>

definition written_to :: "string \<Rightarrow> string \<Rightarrow> string \<Rightarrow> string option" where
  "written_to platform dest name =
     (let file = entry_path platform dest name
      in if test_plain file \<or> test_exe file then Some file else None)"

definition extracted :: "world \<Rightarrow> (string \<times> string) list \<Rightarrow> (string \<times> string) list" where
  "extracted w es =
     concat (map (\<lambda>(n, c). case written_to (os_platform w) (userDir w) n of
                               None \<Rightarrow> [] | Some f \<Rightarrow> [(f, c)]) es)"

text \<open>The first call of the installer, \<open>releaseTarballUrl ()\<close> in \<open>downloadBinary\<close>.\<close>

fun is_install :: "call \<Rightarrow> bool" where
  "is_install ReleaseTarballUrl = True"
| "is_install c = False"

text \<open>The call of \<open>spawn\<close> of the version probe, and the mode that \<open>fs.access\<close> gets.\<close>

definition probe_of :: "world \<Rightarrow> effects \<Rightarrow> spawn_call" where
  "probe_of w fx =
     \<lparr>command = executableName (os_platform w), args = [''--version''],
      env = props (snd (envForPlatform (os_platform w) (process_env w) (mem fx)))
                  (fst (envForPlatform (os_platform w) (process_env w) (mem fx))),
      cwd = None\<rparr>"

definition access_mode :: "world \<Rightarrow> nat" where
  "access_mode w = (if os_platform w = ''win32'' then R_OK else R_OK OR X_OK)"

text \<open>
  A world to run the module in: Linux, a runtime on the search path that answers the
  version probe, and a server that opens its port.
\<close>

definition heap0 :: heap where
  "heap0 = \<lparr>objs = [0 \<mapsto> [''HOME'' \<mapsto> ''/home/u'']], next_addr = 1\<rparr>"

definition fx0 :: effects where
  "fx0 = \<lparr>calls = [], console = [], disk = Map.empty, mem = heap0\<rparr>"

definition world0 :: world where
  "world0 =
     \<lparr>os_platform = ''linux'',
      userDir = ''/home/u/.config/weichspielapparat'',
      process_env = 0,
      path_dirname = posix_dirname,
      fs_access = (\<lambda>p m. Some ''ENOENT''),
      releaseTarballUrl = Fulfilled ''https://example.org/fernspielapparat.tar.gz'',
      downloadTarball = (\<lambda>u f. Fulfilled (''/tmp/'' @ f)),
      tarball = (\<lambda>p. \<lparr>entries = [(''README.md'', ''read me''), (''bin/fernspielapparat'', ''ELF'')],
                      failure = None\<rparr>),
      probe_child = [Stdout (''fernspielapparat 0.1.0'' @ [LF]), Exit (Some 0)],
      server_child = [Stderr ''listening'', PortFulfilled]\<rparr>"




text \<open>A world with no runtime on the search path.\<close>

definition world_absent :: world where
  "world_absent = world0\<lparr>probe_child := [SpawnError ''spawn fernspielapparat ENOENT'']\<rparr>"

section \<open>Properties\<close>

subsection \<open>Strings and promises\<close>

lemma length_split: "length (split c s) = Suc (count_list s c)"
  by (induction s) (auto split: list.splits)

lemma split_not_Nil: "split c s \<noteq> []"
  by (induction s) (auto split: list.splits)

lemma trim_last: "trim s \<noteq> [] \<Longrightarrow> \<not> js_space (last (trim s))"
  unfolding trim_def by (simp add: last_rev hd_dropWhile)

lemma trim_hd: "trim s \<noteq> [] \<Longrightarrow> \<not> js_space (hd (trim s))"
proof -
  assume a: "trim s \<noteq> []"
  define t where "t = dropWhile js_space s"
  define u where "u = dropWhile js_space (rev t)"
  have tr: "trim s = rev u" by (simp add: trim_def t_def u_def)
  with a have u: "u \<noteq> []" by simp
  have "rev t = takeWhile js_space (rev t) @ u" by (simp add: u_def)
  then have "t = rev u @ rev (takeWhile js_space (rev t))"
    by (metis rev_append rev_rev_ident)
  with u have "hd t = hd (rev u)" by (metis hd_append2 rev_is_Nil_conv)
  moreover have "t \<noteq> []" using u u_def by auto
  then have "\<not> js_space (hd t)" unfolding t_def by (rule hd_dropWhile)
  ultimately show ?thesis using tr by simp
qed

lemma resolve_settled: "p \<noteq> Pending \<Longrightarrow> resolve v p = p"
  by (cases p) auto

lemma reject_settled: "p \<noteq> Pending \<Longrightarrow> reject e p = p"
  by (cases p) auto

subsection \<open>The version probe\<close>

lemma version_event_output: "output_str (version_event s e) = output_str s @ chunk e"
  by (cases e) (auto simp: version_exit_def Let_def)

lemma version_event_settled:
  "settled s \<noteq> Pending \<Longrightarrow> settled (version_event s e) = settled s"
  by (cases e) (auto simp: version_exit_def Let_def resolve_settled reject_settled)

lemma version_fold_settled:
  "settled s \<noteq> Pending \<Longrightarrow> settled (foldl version_event s evs) = settled s"
  by (induction evs arbitrary: s) (auto simp: version_event_settled)

lemma version_exit_settles: "settled s = Pending \<Longrightarrow> settled (version_exit code s) \<noteq> Pending"
  by (auto simp: version_exit_def Let_def)

lemma version_exit_fulfilled:
  "settled s = Pending \<Longrightarrow>
   settled (version_exit code s) = Fulfilled v \<longleftrightarrow>
     (\<not> truthy_code code \<and> length (split CHR '' '' (output_str s)) = 2
      \<and> v = trim (split CHR '' '' (output_str s) ! 1))"
  by (auto simp: version_exit_def Let_def)

text \<open>
  When the probe resolves, an exit event with a falsy code has come, and the version is
  cut out of what the child had printed until then.
\<close>

lemma version_fold_fulfilled:
  "settled s = Pending \<Longrightarrow> settled (foldl version_event s evs) = Fulfilled v \<Longrightarrow>
   \<exists>pre code post. evs = pre @ Exit code # post \<and> \<not> truthy_code code \<and>
      length (split CHR '' '' (output_str s @ concat (map chunk pre))) = 2 \<and>
      v = trim (split CHR '' '' (output_str s @ concat (map chunk pre)) ! 1)"
proof (induction evs arbitrary: s)
  case Nil
  then show ?case by simp
next
  case (Cons e evs)
  show ?case
  proof (cases "settled (version_event s e) = Pending")
    case True
    from Cons.prems(2) have "settled (foldl version_event (version_event s e) evs) = Fulfilled v"
      by simp
    from Cons.IH [OF True this] obtain pre code post where
      p: "evs = pre @ Exit code # post" "\<not> truthy_code code"
         "length (split CHR '' '' (output_str (version_event s e) @ concat (map chunk pre))) = 2"
         "v = trim (split CHR '' '' (output_str (version_event s e) @ concat (map chunk pre)) ! 1)"
      by blast
    have "e # evs = (e # pre) @ Exit code # post" using p(1) by simp
    moreover have "output_str (version_event s e) @ concat (map chunk pre)
                   = output_str s @ concat (map chunk (e # pre))"
      by (simp add: version_event_output)
    ultimately show ?thesis using p(2,3,4) by metis
  next
    case False
    then have "settled (foldl version_event (version_event s e) evs) = settled (version_event s e)"
      by (rule version_fold_settled)
    with Cons.prems(2) have f: "settled (version_event s e) = Fulfilled v" by simp
    then obtain code where e: "e = Exit code"
      using Cons.prems(1) by (cases e) auto
    with f Cons.prems(1) have "\<not> truthy_code code \<and> length (split CHR '' '' (output_str s)) = 2
      \<and> v = trim (split CHR '' '' (output_str s) ! 1)"
      by (simp add: version_exit_fulfilled)
    then show ?thesis using e by (intro exI [of _ "[]"] exI [of _ code] exI [of _ evs]) simp
  qed
qed

lemma version_fold_data:
  "\<forall>e\<in>set pre. is_data e \<Longrightarrow>
   foldl version_event s pre = s\<lparr>output_str := output_str s @ concat (map chunk pre)\<rparr>"
proof (induction pre arbitrary: s)
  case Nil
  then show ?case by simp
next
  case (Cons e pre)
  then show ?case by (cases e) auto
qed

lemma version_probe_unfold:
  "snd (fernspielapparatVersionOnPath w fx) =
   settled (foldl version_event
     (new_handlers (do_call (Spawn \<lparr>command = executableName (os_platform w), args = [''--version''],
        env = props (snd (envForPlatform (os_platform w) (process_env w) (mem fx)))
                (fst (envForPlatform (os_platform w) (process_env w) (mem fx))), cwd = None\<rparr>)
        (fx\<lparr>mem := snd (envForPlatform (os_platform w) (process_env w) (mem fx))\<rparr>)) :: string handlers)
     (probe_child w))"
  by (simp add: fernspielapparatVersionOnPath_def Let_def split: prod.splits)

lemma version_probe_settled_form:
  "\<exists>s0 :: string handlers. output_str s0 = [] \<and> settled s0 = Pending \<and>
      snd (fernspielapparatVersionOnPath w fx) = settled (foldl version_event s0 (probe_child w))"
  unfolding version_probe_unfold by (rule exI, intro conjI, rule_tac [3] refl) (simp_all add: new_handlers_def)

text \<open>
  Claim C10. When the version probe resolves, the version is the second of the pieces
  into which the output splits at single spaces, with the white space at both ends
  removed: the version neither starts nor ends in white space, and so never ends in a
  line feed.
\<close>

theorem version_trimmed:
  assumes "snd (fernspielapparatVersionOnPath w fx) = Fulfilled v"
  shows "(\<exists>pre code post. probe_child w = pre @ Exit code # post \<and>
             v = trim (split CHR '' '' (concat (map chunk pre)) ! 1))
         \<and> (v \<noteq> [] \<longrightarrow> \<not> js_space (hd v) \<and> \<not> js_space (last v))
         \<and> \<not> suffix [LF] v"
proof -
  obtain s0 :: "string handlers" where s0: "output_str s0 = []" "settled s0 = Pending"
    "snd (fernspielapparatVersionOnPath w fx) = settled (foldl version_event s0 (probe_child w))"
    using version_probe_settled_form by blast
  with assms have "settled (foldl version_event s0 (probe_child w)) = Fulfilled v" by simp
  from version_fold_fulfilled [OF s0(2) this] obtain pre code post where
    p: "probe_child w = pre @ Exit code # post"
       "v = trim (split CHR '' '' (concat (map chunk pre)) ! 1)"
    using s0(1) by auto
  have e: "v \<noteq> [] \<longrightarrow> \<not> js_space (hd v) \<and> \<not> js_space (last v)"
    unfolding p(2) using trim_hd trim_last by blast
  have "\<not> suffix [LF] v"
  proof
    assume "suffix [LF] v"
    then obtain a where "v = a @ [LF]" by (auto simp: suffix_def)
    then have "v \<noteq> []" "last v = LF" by auto
    with e show False by (simp add: js_space_def LF_def)
  qed
  with p e show ?thesis by blast
qed

theorem version_trimmed_witness:
  "snd (fernspielapparatVersionOnPath world0 fx0) = Fulfilled ''0.1.0''
   \<and> \<not> suffix [LF] ''0.1.0''"
  using version_trimmed [of world0 fx0 "''0.1.0''"]
  by (simp add: version_probe_unfold world0_def new_handlers_def version_exit_def trim_def js_space_def LF_def)

lemma digits10_small: "n < 10 \<Longrightarrow> digits10 n = [''0123456789'' ! n]"
  by (subst digits10.simps) simp

lemma digits10_large:
  "10 \<le> n \<Longrightarrow> digits10 n = digits10 (n div 10) @ [''0123456789'' ! (n mod 10)]"
  by (subst digits10.simps) simp

lemma wsUrl_value: "wsUrl = ''ws://127.0.0.1:38397''"
  by (simp add: wsUrl_def defaultBind_host_def defaultBind_port_def num_str_def digits10_small digits10_large)

lemma then2_Fulfilled: "snd m = Fulfilled v \<Longrightarrow> then2 m f g = f v (fst m)"
  by (cases m) (simp add: then2_def)
lemma then2_Rejected: "snd m = Rejected e \<Longrightarrow> then2 m f g = g e (fst m)"
  by (cases m) (simp add: then2_def)
lemma then2_Pending: "snd m = Pending \<Longrightarrow> then2 m f g = (fst m, Pending)"
  by (cases m) (simp add: then2_def)

lemma getBinary_on_path:
  "snd (fernspielapparatVersionOnPath w fx) = Fulfilled v \<Longrightarrow>
   snd (getBinary w fx) = Fulfilled (executableName (os_platform w))"
  by (simp add: getBinary_def then2_Fulfilled fernspielapparatOnPath_def)

lemma getBinary_fallback:
  "snd (fernspielapparatVersionOnPath w fx) = Rejected e \<Longrightarrow>
   getBinary w fx = fernspielapparatPathInUserDir w (fst (fernspielapparatVersionOnPath w fx))"
  by (simp add: getBinary_def then2_Rejected)

lemma version_probe_at_event:
  assumes "probe_child w = pre @ e # post" and "\<forall>x\<in>set pre. is_data x"
  shows "\<exists>s0 :: string handlers. output_str s0 = concat (map chunk pre) \<and> settled s0 = Pending \<and>
      snd (fernspielapparatVersionOnPath w fx) = settled (foldl version_event (version_event s0 e) post)"
proof -
  obtain s0 :: "string handlers" where s0: "output_str s0 = []" "settled s0 = Pending"
    "snd (fernspielapparatVersionOnPath w fx) = settled (foldl version_event s0 (probe_child w))"
    using version_probe_settled_form by blast
  let ?s = "s0\<lparr>output_str := output_str s0 @ concat (map chunk pre)\<rparr>"
  have "foldl version_event s0 (probe_child w) = foldl version_event (version_event ?s e) post"
    using assms by (simp add: version_fold_data)
  with s0 show ?thesis by (intro exI [of _ ?s]) simp
qed

text \<open>
  Claim C5, as the program has it. Let the child of the version probe print some data
  and then exit or fail to spawn. The probe resolves exactly when the exit code is
  falsy (zero or \<open>null\<close>) and the output holds exactly one space character, so that it
  splits at single spaces into two pieces; the version is the second piece, trimmed,
  and the resolver answers the bare name of the executable. A truthy exit code gives
  the error of the unsuccessful exit, another number of pieces the error of the
  unexpected output, a failed spawn the error of the missing executable; after each of
  them the resolver goes on to the check of the install directory.
\<close>

theorem version_probe_outcome:
  assumes "probe_child w = pre @ e # post" and "\<forall>x\<in>set pre. is_data x"
  shows "(\<forall>code. e = Exit code \<longrightarrow>
            snd (fernspielapparatVersionOnPath w fx) =
              (if truthy_code code then
                 Rejected (''Unsuccessful exit status: '' @ code_str code @ '', Output: ''
                           @ [dquote] @ concat (map chunk pre) @ [dquote])
               else if count_list (concat (map chunk pre)) CHR '' '' = 1 then
                 Fulfilled (trim (split CHR '' '' (concat (map chunk pre)) ! 1))
               else Rejected (''Unexpected output from fernspielapparat runtime: ''
                              @ concat (map chunk pre))))
       \<and> (\<forall>m. e = SpawnError m \<longrightarrow>
            snd (fernspielapparatVersionOnPath w fx) =
              Rejected (''No fernspielapparat on path, error: '' @ m))
       \<and> (\<forall>v. snd (fernspielapparatVersionOnPath w fx) = Fulfilled v \<longrightarrow>
            snd (getBinary w fx) = Fulfilled (executableName (os_platform w)))
       \<and> (\<forall>x. snd (fernspielapparatVersionOnPath w fx) = Rejected x \<longrightarrow>
            getBinary w fx =
              fernspielapparatPathInUserDir w (fst (fernspielapparatVersionOnPath w fx)))"
proof -
  obtain s0 :: "string handlers" where s0: "output_str s0 = concat (map chunk pre)"
    "settled s0 = Pending"
    "snd (fernspielapparatVersionOnPath w fx) = settled (foldl version_event (version_event s0 e) post)"
    using version_probe_at_event [OF assms] by blast
  have a: "snd (fernspielapparatVersionOnPath w fx) = settled (version_exit code s0)"
    if "e = Exit code" for code
    using that s0(2,3) by (simp add: version_fold_settled version_exit_settles)
  have b: "snd (fernspielapparatVersionOnPath w fx) = Rejected (''No fernspielapparat on path, error: '' @ m)"
    if "e = SpawnError m" for m
    using that s0(2,3) by (simp add: version_fold_settled)
  have c: "settled (version_exit code s0) =
              (if truthy_code code then
                 Rejected (''Unsuccessful exit status: '' @ code_str code @ '', Output: ''
                           @ [dquote] @ concat (map chunk pre) @ [dquote])
               else if count_list (concat (map chunk pre)) CHR '' '' = 1 then
                 Fulfilled (trim (split CHR '' '' (concat (map chunk pre)) ! 1))
               else Rejected (''Unexpected output from fernspielapparat runtime: ''
                              @ concat (map chunk pre)))" for code
    using s0(1,2) by (simp add: version_exit_def Let_def length_split)
  show ?thesis
  proof (intro conjI allI impI)
    fix code assume "e = Exit code"
    then show "snd (fernspielapparatVersionOnPath w fx) =
              (if truthy_code code then
                 Rejected (''Unsuccessful exit status: '' @ code_str code @ '', Output: ''
                           @ [dquote] @ concat (map chunk pre) @ [dquote])
               else if count_list (concat (map chunk pre)) CHR '' '' = 1 then
                 Fulfilled (trim (split CHR '' '' (concat (map chunk pre)) ! 1))
               else Rejected (''Unexpected output from fernspielapparat runtime: ''
                              @ concat (map chunk pre)))"
      using a c by simp
  next
    fix m assume "e = SpawnError m"
    then show "snd (fernspielapparatVersionOnPath w fx) =
              Rejected (''No fernspielapparat on path, error: '' @ m)"
      by (rule b)
  next
    fix v assume "snd (fernspielapparatVersionOnPath w fx) = Fulfilled v"
    then show "snd (getBinary w fx) = Fulfilled (executableName (os_platform w))"
      by (rule getBinary_on_path)
  next
    fix x assume "snd (fernspielapparatVersionOnPath w fx) = Rejected x"
    then show "getBinary w fx =
              fernspielapparatPathInUserDir w (fst (fernspielapparatVersionOnPath w fx))"
      by (rule getBinary_fallback)
  qed
qed

theorem version_probe_outcome_witness:
  "snd (fernspielapparatVersionOnPath world0 fx0) = Fulfilled ''0.1.0''
   \<and> snd (getBinary world0 fx0) = Fulfilled ''fernspielapparat''
   \<and> snd (fernspielapparatVersionOnPath (world0\<lparr>probe_child := [Stderr ''boom'', Exit (Some 2)]\<rparr>) fx0)
       = Rejected (''Unsuccessful exit status: 2, Output: '' @ [dquote] @ ''boom'' @ [dquote])"
  using version_probe_outcome [of world0 "[Stdout (''fernspielapparat 0.1.0'' @ [LF])]" "Exit (Some 0)" "[]" fx0]
    version_probe_outcome [of "world0\<lparr>probe_child := [Stderr ''boom'', Exit (Some 2)]\<rparr>"
       "[Stderr ''boom'']" "Exit (Some 2)" "[]" fx0]
  by (simp add: world0_def trim_def js_space_def LF_def executableName_def num_str_def digits10_small)

text \<open>
  Claim C5 as the specification words it fails in both directions: an output of two
  tokens that two spaces separate is rejected after an exit with code zero, and an
  output of one token and a space resolves, to the empty version.
\<close>

theorem version_tokens_counterexample:
  "length (spec_tokens ''fernspielapparat  0.1.0'') = 2
   \<and> snd (fernspielapparatVersionOnPath
            (world0\<lparr>probe_child := [Stdout ''fernspielapparat  0.1.0'', Exit (Some 0)]\<rparr>) fx0)
       = Rejected ''Unexpected output from fernspielapparat runtime: fernspielapparat  0.1.0''
   \<and> length (spec_tokens ''fernspielapparat '') = 1
   \<and> snd (fernspielapparatVersionOnPath
            (world0\<lparr>probe_child := [Stdout ''fernspielapparat '', Exit (Some 0)]\<rparr>) fx0)
       = Fulfilled []"
  by (simp add: version_probe_unfold world0_def new_handlers_def version_exit_def trim_def
        js_space_def spec_tokens_def console_log_def)

subsection \<open>The process supervisor\<close>

lemma server_event_settled:
  "settled s \<noteq> Pending \<Longrightarrow> settled (server_event sv s e) = settled s"
  by (cases e) (auto simp: server_exit_def Let_def resolve_settled reject_settled)

lemma server_fold_settled:
  "settled s \<noteq> Pending \<Longrightarrow> settled (foldl (server_event sv) s evs) = settled s"
  by (induction evs arbitrary: s) (auto simp: server_event_settled)

lemma server_fold_data:
  "\<forall>x\<in>set pre. is_data x \<Longrightarrow>
   settled (foldl (server_event sv) s pre) = settled s
   \<and> starting (foldl (server_event sv) s pre) = starting s"
proof (induction pre arbitrary: s)
  case Nil
  then show ?case by simp
next
  case (Cons e pre)
  then show ?case by (cases e) auto
qed

lemma server_event_calls: "calls (fx_of (server_event sv s e)) = calls (fx_of s)"
  by (cases e) (auto simp: server_exit_def Let_def console_log_def console_error_def)

lemma server_fold_calls: "calls (fx_of (foldl (server_event sv) s evs)) = calls (fx_of s)"
  by (induction evs arbitrary: s) (auto simp: server_event_calls)

lemma server_event_console:
  "set (console (fx_of s)) \<subseteq> set (console (fx_of (server_event sv s e)))"
  by (cases e) (auto simp: server_exit_def Let_def console_log_def console_error_def)

lemma server_fold_console:
  "set (console (fx_of s)) \<subseteq> set (console (fx_of (foldl (server_event sv) s evs)))"
proof (induction evs arbitrary: s)
  case Nil
  show ?case by simp
next
  case (Cons e evs)
  have "set (console (fx_of s)) \<subseteq> set (console (fx_of (server_event sv s e)))"
    by (rule server_event_console)
  also have "\<dots> \<subseteq> set (console (fx_of (foldl (server_event sv) (server_event sv s e) evs)))"
    by (rule Cons.IH)
  finally show ?case by simp
qed

lemma server_exit_logged: "exit_line code \<in> set (console (fx_of (server_event sv s (Exit code))))"
  by (auto simp: server_exit_def Let_def console_log_def exit_line_def)

lemma server_fold_exit_logged:
  "Exit code \<in> set evs \<Longrightarrow> exit_line code \<in> set (console (fx_of (foldl (server_event sv) s evs)))"
proof (induction evs arbitrary: s)
  case Nil
  then show ?case by simp
next
  case (Cons e evs)
  show ?case
  proof (cases "e = Exit code")
    case True
    then show ?thesis using server_exit_logged server_fold_console by fastforce
  next
    case False
    with Cons show ?thesis by simp
  qed
qed

lemma launchServer_unfold:
  "launchServer w p fx =
     (let s = foldl (server_event (server_of w p fx))
                (new_handlers
                   (do_call (WaitPort defaultBind_host defaultBind_port 150 5000)
                      (do_call (Spawn (server_of w p fx))
                         (fx\<lparr>mem := snd (envForPlatform (os_platform w) (process_env w) (mem fx))\<rparr>))))
                (server_child w)
      in (fx_of s, settled s))"
  by (simp add: launchServer_def server_of_def Let_def split: prod.splits)

lemma launchServer_form:
  "\<exists>s0 :: runtime handlers. settled s0 = Pending \<and> starting s0 \<and>
      calls (fx_of s0) = calls fx @ [Spawn (server_of w p fx),
                                    WaitPort defaultBind_host defaultBind_port 150 5000] \<and>
      launchServer w p fx =
        (fx_of (foldl (server_event (server_of w p fx)) s0 (server_child w)),
         settled (foldl (server_event (server_of w p fx)) s0 (server_child w))) \<and>
      (\<forall>evs. launchServer (w\<lparr>server_child := evs\<rparr>) p fx =
        (fx_of (foldl (server_event (server_of w p fx)) s0 evs),
         settled (foldl (server_event (server_of w p fx)) s0 evs)))"
  by (rule exI [of _ "new_handlers
                   (do_call (WaitPort defaultBind_host defaultBind_port 150 5000)
                      (do_call (Spawn (server_of w p fx))
                         (fx\<lparr>mem := snd (envForPlatform (os_platform w) (process_env w) (mem fx))\<rparr>)))"])
     (simp add: launchServer_unfold Let_def new_handlers_def do_call_def server_of_def server_spawn_def)

lemma port_str: "num_str (int defaultBind_port) = ''38397''"
  by (simp add: defaultBind_port_def num_str_def digits10_small digits10_large)

lemma server_event_first:
  assumes "settled s = Pending" and "starting s"
  shows "settled (server_event sv s (Exit code)) =
           Rejected (''fernspielapparat unexpected exit at startup with code '' @ code_str code)"
    and "settled (server_event sv s (SpawnError m)) =
           Rejected (''fernspielapparat could not be started, error: '' @ m)"
    and "settled (server_event sv s PortFulfilled) =
           Fulfilled \<lparr>process = sv, url = ''ws://127.0.0.1:38397''\<rparr>"
    and "settled (server_event sv s PortRejected) =
           Rejected ''fernspielapparat server not available on port 38397 after 5 seconds, giving up.''"
  using assms by (simp_all add: server_exit_def Let_def wsUrl_value port_str)

lemma server_event_settles:
  "settled s = Pending \<Longrightarrow> starting s \<Longrightarrow> \<not> is_data e \<Longrightarrow>
   settled (server_event sv s e) \<noteq> Pending"
  by (cases e) (simp_all add: server_exit_def Let_def)

text \<open>
  Claim C3. The launch settles at most once, and the first event that is not data of
  the child decides how: the exit of the child rejects the launch with an error that
  carries the exit code, a spawn error rejects it, the fulfilled promise of
  \<open>waitPort\<close> resolves it with the handle and the rejected one rejects it with the
  error of the time-out. Whatever follows changes nothing: an exit at startup is not
  rejected again by the time-out, and an exit after the launch has resolved only
  leaves its line on the console.
\<close>

theorem launch_settles_once:
  assumes "server_child w = pre @ e # post" and "\<forall>x\<in>set pre. is_data x"
  shows "(\<forall>code. e = Exit code \<longrightarrow>
            snd (launchServer w p fx) =
              Rejected (''fernspielapparat unexpected exit at startup with code '' @ code_str code))
       \<and> (\<forall>m. e = SpawnError m \<longrightarrow>
            snd (launchServer w p fx) =
              Rejected (''fernspielapparat could not be started, error: '' @ m))
       \<and> (e = PortFulfilled \<longrightarrow>
            snd (launchServer w p fx) =
              Fulfilled \<lparr>process = server_of w p fx, url = ''ws://127.0.0.1:38397''\<rparr>)
       \<and> (e = PortRejected \<longrightarrow>
            snd (launchServer w p fx) =
              Rejected ''fernspielapparat server not available on port 38397 after 5 seconds, giving up.'')
       \<and> (snd (launchServer w p fx) \<noteq> Pending \<longrightarrow>
            (\<forall>more. snd (launchServer (w\<lparr>server_child := server_child w @ more\<rparr>) p fx)
                     = snd (launchServer w p fx)))
       \<and> (\<forall>code. Exit code \<in> set (server_child w) \<longrightarrow>
            exit_line code \<in> set (console (fst (launchServer w p fx))))"
proof -
  let ?sv = "server_of w p fx"
  obtain s0 :: "runtime handlers" where s0: "settled s0 = Pending" "starting s0"
    and run: "launchServer w p fx =
        (fx_of (foldl (server_event ?sv) s0 (server_child w)),
         settled (foldl (server_event ?sv) s0 (server_child w)))"
    and runs: "\<And>evs. launchServer (w\<lparr>server_child := evs\<rparr>) p fx =
        (fx_of (foldl (server_event ?sv) s0 evs), settled (foldl (server_event ?sv) s0 evs))"
    using launchServer_form [where w = w and p = p and fx = fx] by blast
  define s1 where "s1 = foldl (server_event ?sv) s0 pre"
  have s1: "settled s1 = Pending" "starting s1"
    using server_fold_data [OF assms(2), of ?sv s0] s0 by (simp_all add: s1_def)
  have at_e: "snd (launchServer w p fx) = settled (server_event ?sv s1 e)" if "\<not> is_data e"
  proof -
    have "settled (server_event ?sv s1 e) \<noteq> Pending"
      using s1 that by (rule server_event_settles)
    then have "settled (foldl (server_event ?sv) (server_event ?sv s1 e) post)
               = settled (server_event ?sv s1 e)"
      by (rule server_fold_settled)
    then show ?thesis using run assms(1) by (simp add: s1_def)
  qed
  have once: "snd (launchServer (w\<lparr>server_child := server_child w @ more\<rparr>) p fx)
                = snd (launchServer w p fx)"
    if "snd (launchServer w p fx) \<noteq> Pending" for more
  proof -
    from that run have "settled (foldl (server_event ?sv) s0 (server_child w)) \<noteq> Pending" by simp
    then have "settled (foldl (server_event ?sv) (foldl (server_event ?sv) s0 (server_child w)) more)
               = settled (foldl (server_event ?sv) s0 (server_child w))"
      by (rule server_fold_settled)
    then show ?thesis using run runs [of "server_child w @ more"] by simp
  qed
  have logged: "exit_line code \<in> set (console (fst (launchServer w p fx)))"
    if "Exit code \<in> set (server_child w)" for code
    using server_fold_exit_logged [OF that, of ?sv s0] run by simp
  show ?thesis
  proof (intro conjI allI impI)
    fix code assume "e = Exit code"
    then show "snd (launchServer w p fx) =
              Rejected (''fernspielapparat unexpected exit at startup with code '' @ code_str code)"
      using at_e server_event_first(1) [OF s1] by simp
  next
    fix m assume "e = SpawnError m"
    then show "snd (launchServer w p fx) =
              Rejected (''fernspielapparat could not be started, error: '' @ m)"
      using at_e server_event_first(2) [OF s1] by simp
  next
    assume "e = PortFulfilled"
    then show "snd (launchServer w p fx) =
              Fulfilled \<lparr>process = server_of w p fx, url = ''ws://127.0.0.1:38397''\<rparr>"
      using at_e server_event_first(3) [OF s1] by simp
  next
    assume "e = PortRejected"
    then show "snd (launchServer w p fx) =
              Rejected ''fernspielapparat server not available on port 38397 after 5 seconds, giving up.''"
      using at_e server_event_first(4) [OF s1] by simp
  next
    fix more assume "snd (launchServer w p fx) \<noteq> Pending"
    then show "snd (launchServer (w\<lparr>server_child := server_child w @ more\<rparr>) p fx)
                     = snd (launchServer w p fx)"
      by (rule once)
  next
    fix code assume "Exit code \<in> set (server_child w)"
    then show "exit_line code \<in> set (console (fst (launchServer w p fx)))"
      by (rule logged)
  qed
qed

theorem launch_settles_once_witness:
  "snd (launchServer (world0\<lparr>server_child := [Stdout ''x'', Exit (Some 1), PortRejected]\<rparr>) [] fx0)
     = Rejected ''fernspielapparat unexpected exit at startup with code 1''
   \<and> snd (launchServer (world0\<lparr>server_child := [PortFulfilled, Exit (Some 1)]\<rparr>) ''fernspielapparat'' fx0)
     = Fulfilled \<lparr>process = server_of (world0\<lparr>server_child := [PortFulfilled, Exit (Some 1)]\<rparr>)
                                ''fernspielapparat'' fx0,
                  url = ''ws://127.0.0.1:38397''\<rparr>
   \<and> Log ''server exited with code 1''
       \<in> set (console (fst (launchServer (world0\<lparr>server_child := [PortFulfilled, Exit (Some 1)]\<rparr>)
                                ''fernspielapparat'' fx0)))"
  using launch_settles_once [of "world0\<lparr>server_child := [Stdout ''x'', Exit (Some 1), PortRejected]\<rparr>"
          "[Stdout ''x'']" "Exit (Some 1)" "[PortRejected]" "[]" fx0]
        launch_settles_once [of "world0\<lparr>server_child := [PortFulfilled, Exit (Some 1)]\<rparr>"
          "[]" PortFulfilled "[Exit (Some 1)]" "''fernspielapparat''" fx0]
  by (simp add: world0_def exit_line_def num_str_def digits10_small)

lemma launchServer_calls:
  "calls (fst (launchServer w p fx)) =
     calls fx @ [Spawn (server_of w p fx), WaitPort ''127.0.0.1'' 38397 150 5000]"
  by (simp add: launchServer_unfold Let_def server_fold_calls new_handlers_def do_call_def
        defaultBind_host_def defaultBind_port_def)





subsection \<open>The environment\<close>

lemma props_set_prop:
  "props (set_prop a k v h) b = (if b = a then (props h a)(k \<mapsto> v) else props h b)"
  by (simp add: props_def set_prop_def)

lemma objs_set_prop: "b \<noteq> a \<Longrightarrow> objs (set_prop a k v h) b = objs h b"
  by (simp add: set_prop_def)

lemma props_spread:
  "props (snd (spread a h)) b = (if b = next_addr h then props h a else props h b)"
  by (simp add: props_def spread_def)

lemma objs_spread: "b \<noteq> next_addr h \<Longrightarrow> objs (snd (spread a h)) b = objs h b"
  by (simp add: spread_def)

lemma fst_spread: "fst (spread a h) = next_addr h"
  by (simp add: spread_def)

lemma objs_set_plugin_path: "b \<noteq> a \<Longrightarrow> objs (set_plugin_path pf penv a h) b = objs h b"
  by (simp add: set_plugin_path_def objs_set_prop)

lemma props_set_plugin_path:
  "props (set_plugin_path pf penv a h) b =
     (if b = a \<and> \<not> truthy (props h a ''VLC_PLUGIN_PATH'')
      then (props h a)(''VLC_PLUGIN_PATH'' \<mapsto> vlcPluginDir pf penv h) else props h b)"
  by (simp add: set_plugin_path_def props_set_prop get_prop_def)

lemma fst_envForPlatform: "fst (envForPlatform pf penv h) = next_addr h"
  by (simp add: envForPlatform_def Let_def spread_def)

lemma objs_envForPlatform:
  "b \<noteq> next_addr h \<Longrightarrow> objs (snd (envForPlatform pf penv h)) b = objs h b"
  by (simp add: envForPlatform_def Let_def split_def fst_spread objs_spread objs_set_plugin_path
        objs_set_prop)

lemma vlcLibDir_frame: "props h' penv = props h penv \<Longrightarrow> vlcLibDir pf penv h' = vlcLibDir pf penv h"
  by (simp add: vlcLibDir_def get_prop_def)

lemma vlcPluginDir_frame:
  "props h' penv = props h penv \<Longrightarrow> vlcPluginDir pf penv h' = vlcPluginDir pf penv h"
  by (simp add: vlcPluginDir_def get_prop_def)

text \<open>The properties of the result, as an overlay on the properties of \<open>process.env\<close>.\<close>

lemma props_envForPlatform:
  assumes "penv \<noteq> next_addr h"
  shows "props (snd (envForPlatform pf penv h)) (next_addr h) =
     (let a = props h penv;
          lib = (if pf = ''darwin'' then ''DYLD_LIBRARY_PATH'' else ''Path'');
          a1 = (if pf = ''darwin'' then
                  (if vlcRegex_exec (a lib) then a
                   else a(lib \<mapsto> (if truthy (a lib) then to_str (a lib) @ delimiter pf else [])
                                  @ vlcLibDir pf penv h))
                else if pf = ''win32'' then
                  (if vlcRegex_exec (a lib) then a
                   else a(lib \<mapsto> to_str (a lib) @ delimiter pf @ vlcLibDir pf penv h))
                else a)
      in if pf = ''darwin'' \<or> pf = ''win32'' then
           (if truthy (a1 ''VLC_PLUGIN_PATH'') then a1
            else a1(''VLC_PLUGIN_PATH'' \<mapsto> vlcPluginDir pf penv h))
         else a1)"
proof -
  let ?h1 = "snd (spread penv h)"
  have p1: "props ?h1 penv = props h penv" "props ?h1 (next_addr h) = props h penv"
    using assms by (simp_all add: props_spread)
  have lib: "vlcLibDir q penv ?h1 = vlcLibDir q penv h" for q
    using p1(1) by (rule vlcLibDir_frame)
  have plug: "vlcPluginDir q penv (set_prop (next_addr h) k v ?h1) = vlcPluginDir q penv h"
    "vlcPluginDir q penv ?h1 = vlcPluginDir q penv h" for k v q
    using assms p1(1) by (auto intro!: vlcPluginDir_frame simp: props_set_prop)
  show ?thesis
    by (simp add: envForPlatform_def Let_def split_def fst_spread props_set_plugin_path
          props_set_prop get_prop_def p1 lib plug)
qed

lemma vlc_here_iff:
  "vlc_here s \<longleftrightarrow> (\<exists>a b c post. s = a # b # c # post
      \<and> (a = CHR ''v'' \<or> a = CHR ''V'') \<and> (b = CHR ''l'' \<or> b = CHR ''L'') \<and> (c = CHR ''c'' \<or> c = CHR ''C''))"
  by (cases s rule: vlc_here.cases) auto

lemma vlc_search_append: "vlc_here s \<Longrightarrow> vlc_search (pre @ s)"
  by (induction pre) (auto elim: vlc_here.elims)

lemma vlc_search_split: "vlc_search s \<Longrightarrow> \<exists>pre t. s = pre @ t \<and> vlc_here t"
proof (induction s)
  case Nil
  then show ?case by simp
next
  case (Cons x xs)
  show ?case
  proof (cases "vlc_here (x # xs)")
    case True
    then show ?thesis by (intro exI [of _ "[]"] exI [of _ "x # xs"]) simp
  next
    case False
    with Cons.prems have "vlc_search xs" by simp
    from Cons.IH [OF this] obtain pre t where "xs = pre @ t" "vlc_here t" by blast
    then show ?thesis by (intro exI [of _ "x # pre"] exI [of _ t]) simp
  qed
qed

lemma vlc_search_iff:
  "vlc_search s \<longleftrightarrow> (\<exists>pre a b c post. s = pre @ a # b # c # post
      \<and> (a = CHR ''v'' \<or> a = CHR ''V'') \<and> (b = CHR ''l'' \<or> b = CHR ''L'') \<and> (c = CHR ''c'' \<or> c = CHR ''C''))"
proof
  assume "vlc_search s"
  then obtain pre t where "s = pre @ t" "vlc_here t" using vlc_search_split by blast
  then show "\<exists>pre a b c post. s = pre @ a # b # c # post
      \<and> (a = CHR ''v'' \<or> a = CHR ''V'') \<and> (b = CHR ''l'' \<or> b = CHR ''L'') \<and> (c = CHR ''c'' \<or> c = CHR ''C'')"
    unfolding vlc_here_iff by blast
next
  assume "\<exists>pre a b c post. s = pre @ a # b # c # post
      \<and> (a = CHR ''v'' \<or> a = CHR ''V'') \<and> (b = CHR ''l'' \<or> b = CHR ''L'') \<and> (c = CHR ''c'' \<or> c = CHR ''C'')"
  then obtain pre a b c post where s: "s = pre @ a # b # c # post"
    and "(a = CHR ''v'' \<or> a = CHR ''V'') \<and> (b = CHR ''l'' \<or> b = CHR ''L'') \<and> (c = CHR ''c'' \<or> c = CHR ''C'')"
    by blast
  then have "vlc_here (a # b # c # post)" by simp
  then show "vlc_search s" unfolding s by (rule vlc_search_append)
qed

text \<open>
  Claim C7. \<open>envForPlatform\<close> does not change \<open>process.env\<close>: its result is a new
  object, at an address that no object had before the call; every object of before,
  \<open>process.env\<close> among them, is the same after the call; and every property of the
  result other than the search path for libraries of the platform and the directory of
  the plugins has the value it has in \<open>process.env\<close>.
\<close>

theorem envForPlatform_frame:
  assumes "penv < next_addr h"
  shows "fst (envForPlatform pf penv h) \<noteq> penv
       \<and> next_addr h \<le> fst (envForPlatform pf penv h)
       \<and> (\<forall>a<next_addr h. objs (snd (envForPlatform pf penv h)) a = objs h a)
       \<and> props (snd (envForPlatform pf penv h)) penv = props h penv
       \<and> (\<forall>k. Some k \<noteq> libPathVar pf \<and> k \<noteq> ''VLC_PLUGIN_PATH'' \<longrightarrow>
            get_prop (snd (envForPlatform pf penv h)) (fst (envForPlatform pf penv h)) k
              = get_prop h penv k)"
proof -
  from assms have ne: "penv \<noteq> next_addr h" by simp
  have o: "objs (snd (envForPlatform pf penv h)) a = objs h a" if "a < next_addr h" for a
    using that by (intro objs_envForPlatform) simp
  have "props (snd (envForPlatform pf penv h)) penv = props h penv"
    using o [OF assms] by (simp add: props_def)
  moreover have "get_prop (snd (envForPlatform pf penv h)) (fst (envForPlatform pf penv h)) k
                  = get_prop h penv k"
    if "Some k \<noteq> libPathVar pf" "k \<noteq> ''VLC_PLUGIN_PATH''" for k
  proof -
    consider "pf = ''darwin''" | "pf = ''win32''" | "pf \<noteq> ''darwin''" "pf \<noteq> ''win32''"
      by blast
    then have "props (snd (envForPlatform pf penv h)) (next_addr h) k = props h penv k"
    proof cases
      case 1
      with that have "k \<noteq> ''DYLD_LIBRARY_PATH''" by (simp add: libPathVar_def)
      with 1 that(2) show ?thesis by (simp add: props_envForPlatform [OF ne] Let_def)
    next
      case 2
      with that have "k \<noteq> ''Path''" by (simp add: libPathVar_def)
      with 2 that(2) show ?thesis by (simp add: props_envForPlatform [OF ne] Let_def)
    next
      case 3
      then show ?thesis by (simp add: props_envForPlatform [OF ne] Let_def)
    qed
    then show ?thesis by (simp add: fst_envForPlatform get_prop_def)
  qed
  ultimately show ?thesis using ne o by (simp add: fst_envForPlatform)
qed

theorem envForPlatform_frame_witness:
  "(0::nat) < next_addr heap0
   \<and> fst (envForPlatform ''darwin'' 0 heap0) = 1
   \<and> props (snd (envForPlatform ''darwin'' 0 heap0)) 0 = props heap0 0
   \<and> get_prop (snd (envForPlatform ''darwin'' 0 heap0)) (fst (envForPlatform ''darwin'' 0 heap0)) ''HOME''
       = Some ''/home/u''"
  using envForPlatform_frame [of 0 heap0 "''darwin''"]
  by (simp add: heap0_def fst_envForPlatform libPathVar_def get_prop_def props_def)


lemma truthy_iff: "truthy x \<longleftrightarrow> (\<exists>s. x = Some s \<and> s \<noteq> [])"
  by (cases x) auto

lemma vlc_search_undefined: "\<not> vlc_search ''undefined''"
  by simp

text \<open>
  Claim C8, as the program has it. On macOS and on Windows a search path that holds
  \<open>vlc\<close> in any case is left as it is. Otherwise the directory of VLC is appended: on
  macOS after the old value and a colon, or alone when the old value is unset or
  empty; on Windows after the old value and a semicolon, when the variable is set. The
  directory of the plugins is set to its default exactly when it is unset or empty. On
  every other platform the result is a copy of \<open>process.env\<close>.
\<close>

theorem envForPlatform_overlay:
  assumes "penv < next_addr h"
  shows "let amb = props h penv;
             res = props (snd (envForPlatform pf penv h)) (fst (envForPlatform pf penv h)) in
     (pf = ''darwin'' \<longrightarrow>
        (\<forall>v. amb ''DYLD_LIBRARY_PATH'' = Some v \<and> vlc_search v \<longrightarrow>
              res ''DYLD_LIBRARY_PATH'' = Some v)
      \<and> (\<forall>v. amb ''DYLD_LIBRARY_PATH'' = Some v \<and> \<not> vlc_search v \<and> v \<noteq> [] \<longrightarrow>
              res ''DYLD_LIBRARY_PATH'' =
                Some (v @ '':'' @ ''/Applications/VLC.app/Contents/MacOS:/Applications/VLC.app/Contents/MacOS/lib''))
      \<and> (amb ''DYLD_LIBRARY_PATH'' = None \<or> amb ''DYLD_LIBRARY_PATH'' = Some [] \<longrightarrow>
              res ''DYLD_LIBRARY_PATH'' =
                Some ''/Applications/VLC.app/Contents/MacOS:/Applications/VLC.app/Contents/MacOS/lib''))
   \<and> (pf = ''win32'' \<longrightarrow>
        (\<forall>v. amb ''Path'' = Some v \<and> vlc_search v \<longrightarrow> res ''Path'' = Some v)
      \<and> (\<forall>v. amb ''Path'' = Some v \<and> \<not> vlc_search v \<longrightarrow>
              res ''Path'' =
                Some (v @ '';'' @ to_str (amb ''ProgramFiles'') @ [backslash] @ ''VideoLAN''
                        @ [backslash] @ ''VLC'')))
   \<and> (pf = ''darwin'' \<or> pf = ''win32'' \<longrightarrow>
        (\<forall>p. amb ''VLC_PLUGIN_PATH'' = Some p \<and> p \<noteq> [] \<longrightarrow> res ''VLC_PLUGIN_PATH'' = Some p)
      \<and> (amb ''VLC_PLUGIN_PATH'' = None \<or> amb ''VLC_PLUGIN_PATH'' = Some [] \<longrightarrow>
              res ''VLC_PLUGIN_PATH'' = Some (vlcPluginDir pf penv h)))
   \<and> (pf \<noteq> ''darwin'' \<and> pf \<noteq> ''win32'' \<longrightarrow> res = amb)"
proof -
  from assms have ne: "penv \<noteq> next_addr h" by simp
  note ov = props_envForPlatform [OF ne, unfolded Let_def]
  have d: ?thesis if "pf = ''darwin''"
    using that
    by (auto simp: Let_def fst_envForPlatform ov vlcRegex_exec_def delimiter_def vlcLibDir_def truthy_iff)
  have w: ?thesis if "pf = ''win32''"
    using that
    by (auto simp: Let_def fst_envForPlatform ov vlcRegex_exec_def delimiter_def vlcLibDir_def
          get_prop_def truthy_iff)
  have x: ?thesis if "pf \<noteq> ''darwin''" "pf \<noteq> ''win32''"
    using that by (simp add: Let_def fst_envForPlatform ov)
  from d w x show ?thesis by blast
qed

theorem envForPlatform_overlay_witness:
  "(0::nat) < next_addr heap_mac
   \<and> props (snd (envForPlatform ''darwin'' 0 heap_mac)) (fst (envForPlatform ''darwin'' 0 heap_mac))
        ''DYLD_LIBRARY_PATH''
       = Some ''/opt/lib:/Applications/VLC.app/Contents/MacOS:/Applications/VLC.app/Contents/MacOS/lib''
   \<and> props (snd (envForPlatform ''win32'' 0 heap_win)) (fst (envForPlatform ''win32'' 0 heap_win))
        ''Path''
       = Some (''C:/Windows;C:/Programs'' @ [backslash] @ ''VideoLAN'' @ [backslash] @ ''VLC'')
   \<and> props (snd (envForPlatform ''win32'' 0 heap_win)) (fst (envForPlatform ''win32'' 0 heap_win))
        ''VLC_PLUGIN_PATH''
       = Some (''C:/Programs'' @ [backslash] @ ''VideoLAN'' @ [backslash] @ ''VLC'' @ [backslash] @ ''plugins'')
   \<and> props (snd (envForPlatform ''linux'' 0 heap0)) (fst (envForPlatform ''linux'' 0 heap0))
       = props heap0 0"
  using envForPlatform_overlay [of 0 heap_mac "''darwin''"]
        envForPlatform_overlay [of 0 heap_win "''win32''"]
        envForPlatform_overlay [of 0 heap0 "''linux''"]
  by (simp add: Let_def heap_mac_def heap_win_def heap0_def props_def vlcPluginDir_def get_prop_def)

text \<open>
  Claim C8 as the specification words it fails: a directory of the plugins that is set,
  to the empty string, is overwritten with the default.
\<close>

theorem plugin_path_counterexample:
  "get_prop heap_mac 0 ''VLC_PLUGIN_PATH'' = Some []
   \<and> get_prop (snd (envForPlatform ''darwin'' 0 heap_mac)) (fst (envForPlatform ''darwin'' 0 heap_mac))
        ''VLC_PLUGIN_PATH''
       = Some ''/Applications/VLC.app/Contents/MacOS/plugins''"
proof -
  have ne: "0 \<noteq> next_addr heap_mac" by (simp add: heap_mac_def)
  have am: "props heap_mac 0 = [''DYLD_LIBRARY_PATH'' \<mapsto> ''/opt/lib'', ''VLC_PLUGIN_PATH'' \<mapsto> []]"
    by (simp add: props_def heap_mac_def)
  show ?thesis
    unfolding get_prop_def fst_envForPlatform props_envForPlatform [OF ne] am
    by (simp add: Let_def vlcRegex_exec_def vlcPluginDir_def delimiter_def vlcLibDir_def)
qed

text \<open>
  On Windows, when the environment has no property \<open>Path\<close> (the variable may be spelled
  \<open>PATH\<close>), the template literal turns the missing value into the word \<open>undefined\<close>;
  the branch for macOS tests for the missing value.
\<close>

lemma envForPlatform_win32_no_Path:
  "get_prop heap_win_PATH 0 ''Path'' = None
   \<and> get_prop (snd (envForPlatform ''win32'' 0 heap_win_PATH))
        (fst (envForPlatform ''win32'' 0 heap_win_PATH)) ''Path''
       = Some (''undefined;C:/Programs'' @ [backslash] @ ''VideoLAN'' @ [backslash] @ ''VLC'')"
proof -
  have ne: "0 \<noteq> next_addr heap_win_PATH" by (simp add: heap_win_PATH_def)
  have am: "props heap_win_PATH 0 = [''ProgramFiles'' \<mapsto> ''C:/Programs'', ''PATH'' \<mapsto> ''C:/Windows'']"
    by (simp add: props_def heap_win_PATH_def)
  show ?thesis
    unfolding get_prop_def fst_envForPlatform props_envForPlatform [OF ne] am
    by (simp add: Let_def vlcRegex_exec_def vlcPluginDir_def delimiter_def vlcLibDir_def get_prop_def am)
qed

subsection \<open>The installer\<close>
























text \<open>
  The dot of \<open>/fernspielapparat.exe$/\<close> is not escaped: a name that ends in neither of
  the two names of the executable is taken for the executable.
\<close>

lemma unescaped_dot_example:
  "\<not> suffix ''fernspielapparat'' ''fernspielapparat_exe''
   \<and> \<not> suffix ''fernspielapparat.exe'' ''fernspielapparat_exe''
   \<and> written_to ''linux'' ''/d'' ''fernspielapparat_exe'' = Some ''/d/fernspielapparat.exe''"
  by (simp add: suffix_Cons written_to_def entry_path_def map_fn_def test_plain_def test_exe_def
        path_sep_def LF_def CR_def)



subsection \<open>The launch as a whole\<close>

lemma version_event_calls: "calls (fx_of (version_event s e)) = calls (fx_of s)"
  by (cases e) (auto simp: version_exit_def Let_def console_log_def)

lemma version_fold_calls: "calls (fx_of (foldl version_event s evs)) = calls (fx_of s)"
  by (induction evs arbitrary: s) (auto simp: version_event_calls)

lemma probe_calls:
  "calls (fst (fernspielapparatVersionOnPath w fx)) = calls fx @ [Spawn (probe_of w fx)]"
  by (simp add: fernspielapparatVersionOnPath_def Let_def split_def version_fold_calls
        new_handlers_def do_call_def probe_of_def)

lemma access_calls:
  "calls (fst (fernspielapparatPathInUserDir w fx)) =
     calls fx @ [FsAccess (userBinaryPath w) (access_mode w)]"
  by (simp add: fernspielapparatPathInUserDir_def Let_def do_call_def console_log_def access_mode_def
        split: option.splits)

lemma access_result:
  "snd (fernspielapparatPathInUserDir w fx) =
     (case fs_access w (userBinaryPath w) (access_mode w) of
        None \<Rightarrow> Fulfilled (userBinaryPath w)
      | Some m \<Rightarrow> Rejected (''Lacking execution permissions for runtime binary at: ''
                            @ userBinaryPath w @ '', error: '' @ m))"
  by (simp add: fernspielapparatPathInUserDir_def Let_def access_mode_def split: option.splits)

lemma getBinary_calls:
  "calls (fst (getBinary w fx)) =
     calls fx @ Spawn (probe_of w fx)
       # (case snd (fernspielapparatVersionOnPath w fx) of
            Rejected e \<Rightarrow> [FsAccess (userBinaryPath w) (access_mode w)] | _ \<Rightarrow> [])"
proof (cases "snd (fernspielapparatVersionOnPath w fx)")
  case Pending
  then show ?thesis by (simp add: getBinary_def then2_Pending probe_calls)
next
  case (Fulfilled v)
  then show ?thesis
    by (simp add: getBinary_def then2_Fulfilled fernspielapparatOnPath_def console_log_def probe_calls)
next
  case (Rejected e)
  then show ?thesis by (simp add: getBinary_def then2_Rejected access_calls probe_calls)
qed

lemma getBinary_result:
  "snd (getBinary w fx) =
     (case snd (fernspielapparatVersionOnPath w fx) of
        Pending \<Rightarrow> Pending
      | Fulfilled v \<Rightarrow> Fulfilled (executableName (os_platform w))
      | Rejected e \<Rightarrow> snd (fernspielapparatPathInUserDir w (fst (fernspielapparatVersionOnPath w fx))))"
  by (cases "snd (fernspielapparatVersionOnPath w fx)")
     (simp_all add: getBinary_def then2_Pending then2_Fulfilled then2_Rejected fernspielapparatOnPath_def)

lemma extract_calls:
  "calls (fst (extractExecutableToUserDir w tp fx)) = calls fx @ [Decompress tp (userDir w)]"
  by (simp add: extractExecutableToUserDir_def Let_def split_def do_call_def console_log_def
        split: option.splits)

lemma then1_cases:
  "then1 m f = (case snd m of Pending \<Rightarrow> (fst m, Pending) | Fulfilled v \<Rightarrow> f v (fst m)
                | Rejected e \<Rightarrow> (fst m, Rejected e))"
  by (cases m) (simp add: then1_def then2_def split: promise.splits)

lemma catch_cases:
  "catch m g = (case snd m of Pending \<Rightarrow> (fst m, Pending) | Fulfilled v \<Rightarrow> (fst m, Fulfilled v)
                | Rejected e \<Rightarrow> g e (fst m))"
  by (cases m) (simp add: catch_def then2_def split: promise.splits)

lemma download_calls:
  "\<exists>rest. calls (fst (downloadBinary w fx)) = calls fx @ ReleaseTarballUrl # rest
          \<and> filter is_install rest = []"
  by (simp add: downloadBinary_def then1_cases do_call_def extract_calls
        split: promise.splits)

lemma launch_after_install:
  "\<exists>rest. calls (fst (then1 (downloadBinary w fx) (launchServer w))) = calls fx @ ReleaseTarballUrl # rest
          \<and> filter is_install rest = []"
proof -
  obtain rest where r: "calls (fst (downloadBinary w fx)) = calls fx @ ReleaseTarballUrl # rest"
    "filter is_install rest = []"
    using download_calls by blast
  show ?thesis
    by (cases "snd (downloadBinary w fx)") (simp_all add: then1_cases r launchServer_calls)
qed

lemma launchRuntime_calls:
  "\<exists>rest. filter is_install rest = [] \<and>
     calls (fst (launchRuntime w fx)) =
       calls (fst (getBinary w fx))
         @ (case snd (getBinary w fx) of Rejected e \<Rightarrow> ReleaseTarballUrl # rest | _ \<Rightarrow> rest)"
proof (cases "snd (getBinary w fx)")
  case Pending
  then show ?thesis by (intro exI [of _ "[]"]) (simp add: launchRuntime_def catch_cases then1_cases)
next
  case (Fulfilled p)
  then show ?thesis
    by (intro exI [of _ "[Spawn (server_of w p (fst (getBinary w fx))), WaitPort ''127.0.0.1'' 38397 150 5000]"])
       (simp add: launchRuntime_def catch_cases then1_cases launchServer_calls)
next
  case (Rejected e)
  obtain rest where "calls (fst (then1 (downloadBinary w (fst (getBinary w fx))) (launchServer w)))
      = calls (fst (getBinary w fx)) @ ReleaseTarballUrl # rest" "filter is_install rest = []"
    using launch_after_install by blast
  with Rejected show ?thesis
    by (intro exI [of _ rest]) (simp add: launchRuntime_def catch_cases)
qed

lemma access_mode_value: "access_mode w = (if os_platform w = ''win32'' then 4 else 5)"
  by (simp add: access_mode_def R_OK_def X_OK_def)

text \<open>
  Claim C6. When the version probe is rejected, the resolver calls \<open>fs.access\<close> on the
  path of the executable in the install directory, with the mode \<open>R_OK\<close> on Windows and
  \<open>R_OK | X_OK\<close> elsewhere, and resolves to that path when the check succeeds. A launch
  calls the installer once when both the probe and the check fail, and never
  otherwise; the call of the installer comes right after the probe and the check, so
  before the server is spawned.
\<close>

theorem installer_once:
  "(\<forall>e. snd (fernspielapparatVersionOnPath w fx) = Rejected e \<longrightarrow>
       calls (fst (getBinary w fx)) =
         calls fx @ [Spawn (probe_of w fx),
                     FsAccess (userBinaryPath w)
                       (if os_platform w = ''win32'' then R_OK else R_OK OR X_OK)]
     \<and> args (probe_of w fx) = [''--version'']
     \<and> (fs_access w (userBinaryPath w) (if os_platform w = ''win32'' then R_OK else R_OK OR X_OK) = None
          \<longrightarrow> snd (getBinary w fx) = Fulfilled (userBinaryPath w)))
   \<and> length (filter is_install (calls (fst (launchRuntime w fx)))) =
       length (filter is_install (calls fx))
       + (if (\<exists>e. snd (fernspielapparatVersionOnPath w fx) = Rejected e)
             \<and> fs_access w (userBinaryPath w)
                  (if os_platform w = ''win32'' then R_OK else R_OK OR X_OK) \<noteq> None
          then 1 else 0)
   \<and> ((\<exists>e. snd (fernspielapparatVersionOnPath w fx) = Rejected e)
        \<and> fs_access w (userBinaryPath w)
             (if os_platform w = ''win32'' then R_OK else R_OK OR X_OK) \<noteq> None \<longrightarrow>
       (\<exists>rest. calls (fst (launchRuntime w fx)) =
                 calls fx @ [Spawn (probe_of w fx),
                             FsAccess (userBinaryPath w)
                               (if os_platform w = ''win32'' then R_OK else R_OK OR X_OK),
                             ReleaseTarballUrl] @ rest
               \<and> filter is_install rest = []))"
proof -
  let ?mode = "if os_platform w = ''win32'' then R_OK else R_OK OR X_OK"
  let ?probe = "snd (fernspielapparatVersionOnPath w fx)"
  have mode: "access_mode w = ?mode" by (simp add: access_mode_def)
  obtain rest where rest: "filter is_install rest = []"
    "calls (fst (launchRuntime w fx)) =
       calls (fst (getBinary w fx))
         @ (case snd (getBinary w fx) of Rejected e \<Rightarrow> ReleaseTarballUrl # rest | _ \<Rightarrow> rest)"
    using launchRuntime_calls by blast
  have rej: "(\<exists>e. snd (getBinary w fx) = Rejected e) \<longleftrightarrow>
             (\<exists>e. ?probe = Rejected e) \<and> fs_access w (userBinaryPath w) ?mode \<noteq> None"
    by (cases ?probe; cases "fs_access w (userBinaryPath w) ?mode")
       (simp_all add: getBinary_result access_result mode)
  have a: "calls (fst (getBinary w fx)) =
             calls fx @ [Spawn (probe_of w fx), FsAccess (userBinaryPath w) ?mode]
           \<and> args (probe_of w fx) = [''--version'']
           \<and> (fs_access w (userBinaryPath w) ?mode = None
                 \<longrightarrow> snd (getBinary w fx) = Fulfilled (userBinaryPath w))"
    if "?probe = Rejected e" for e
    using that by (simp add: getBinary_calls getBinary_result access_result mode probe_of_def)
  have gb_noinstall: "filter is_install (calls (fst (getBinary w fx))) = filter is_install (calls fx)"
    by (cases ?probe) (simp_all add: getBinary_calls)
  have b: "length (filter is_install (calls (fst (launchRuntime w fx)))) =
       length (filter is_install (calls fx))
       + (if (\<exists>e. ?probe = Rejected e) \<and> fs_access w (userBinaryPath w) ?mode \<noteq> None then 1 else 0)"
  proof (cases "\<exists>e. snd (getBinary w fx) = Rejected e")
    case True
    then obtain e where "snd (getBinary w fx) = Rejected e" by blast
    then have "length (filter is_install (calls (fst (launchRuntime w fx)))) =
               length (filter is_install (calls fx)) + 1"
      using rest gb_noinstall by simp
    with True rej show ?thesis by simp
  next
    case False
    then have "length (filter is_install (calls (fst (launchRuntime w fx)))) =
               length (filter is_install (calls fx))"
      using rest gb_noinstall by (cases "snd (getBinary w fx)") simp_all
    with False rej show ?thesis by simp
  qed
  have c: "\<exists>rest. calls (fst (launchRuntime w fx)) =
                 calls fx @ [Spawn (probe_of w fx), FsAccess (userBinaryPath w) ?mode,
                             ReleaseTarballUrl] @ rest
               \<and> filter is_install rest = []"
    if "(\<exists>e. ?probe = Rejected e) \<and> fs_access w (userBinaryPath w) ?mode \<noteq> None"
  proof -
    from that rej obtain e where e: "snd (getBinary w fx) = Rejected e" by blast
    from that obtain e' where "?probe = Rejected e'" by blast
    from a [OF this] e rest show ?thesis by (intro exI [of _ rest]) simp
  qed
  from a b c show ?thesis by blast
qed

lemma probe_examples:
  "snd (fernspielapparatVersionOnPath world0 fx) = Fulfilled ''0.1.0''"
  "snd (fernspielapparatVersionOnPath world_absent fx)
     = Rejected ''No fernspielapparat on path, error: spawn fernspielapparat ENOENT''"
  "snd (fernspielapparatVersionOnPath (world_absent\<lparr>fs_access := (\<lambda>p m. None)\<rparr>) fx)
     = Rejected ''No fernspielapparat on path, error: spawn fernspielapparat ENOENT''"
  by (simp_all add: version_probe_unfold world_absent_def world0_def new_handlers_def version_exit_def
        trim_def js_space_def LF_def)

theorem installer_once_witness:
  "length (filter is_install (calls (fst (launchRuntime world_absent fx0)))) = 1
   \<and> length (filter is_install (calls (fst (launchRuntime world0 fx0)))) = 0
   \<and> length (filter is_install
        (calls (fst (launchRuntime (world_absent\<lparr>fs_access := (\<lambda>p m. None)\<rparr>) fx0)))) = 0
   \<and> snd (getBinary (world_absent\<lparr>fs_access := (\<lambda>p m. None)\<rparr>) fx0)
       = Fulfilled ''/home/u/.config/weichspielapparat/fernspielapparat''"
  using installer_once [of world_absent fx0] installer_once [of world0 fx0]
        installer_once [of "world_absent\<lparr>fs_access := (\<lambda>p m. None)\<rparr>" fx0]
  by (simp add: probe_examples)
     (simp add: world_absent_def world0_def fx0_def userBinaryPath_def executableName_def)

end
